theory Spec2Isabelle
  imports Main
begin

section \<open>The launch data model\<close>

text \<open>
  The module \<^verbatim>\<open>tiago_description/tiago_launch_utils.py\<close> builds launch-argument
  declarations and deferred expressions (substitutions) for the launch runtime. The
  runtime's classes are data here: a declaration is a record of the constructor's keyword
  arguments, a substitution is a constructor of one datatype, and a Python exception is
  the left summand of a result.
\<close>

datatype error =
    LookupFailure string
  | ExternalFailure string

text \<open>Keyword arguments passed through to the base provider: a dict from names to values.\<close>

datatype PyValue = PyBool bool | PyStr string

type_synonym kwargs = "string \<rightharpoonup> PyValue"

text \<open>
  \<^verbatim>\<open>DeclareLaunchArgument(name, default_value=..., description=..., choices=...)\<close>:
  the object records the arguments it is built from.
\<close>

record DeclareLaunchArgument =
  name :: string
  default_value :: string
  description :: string
  choices :: "string list"

text \<open>
  The substitution objects the module constructs. A plain Python string in a list of
  substitutions is a \<open>TextSubstitution\<close>; \<open>ExecutableInPackage\<close> carries the package,
  then the executable.
\<close>

datatype Substitution =
    TextSubstitution string
  | LaunchConfiguration string
  | PythonExpression "Substitution list"
  | ExecutableInPackage string string
  | FindPackageShare string
  | PathJoinSubstitution "Substitution list"
  | TiagoXacroConfigSubstitution
  | Command "Substitution list"

text \<open>
  The resolution context. \<open>launch_configurations\<close> is the store of resolved option values.
  The other fields are the external collaborators a substitution reaches when it is
  performed, taken as parameters: the package index (executables and share directories),
  the path joiner, the evaluator of Python expression text and the process runner.
\<close>

record LaunchContext =
  launch_configurations :: "string \<rightharpoonup> string"
  executable_in_package :: "string \<Rightarrow> string \<Rightarrow> error + string"
  package_share :: "string \<Rightarrow> error + string"
  path_join :: "string list \<Rightarrow> error + string"
  python_eval :: "string \<Rightarrow> error + string"
  run_command :: "string \<Rightarrow> error + string"

text \<open>The single quote character of the Python literal \<^verbatim>\<open>"'"\<close>.\<close>

abbreviation quote :: string where
  "quote \<equiv> [CHR 0x27]"

section \<open>The Argument Declarator\<close>

text \<open>
  \<^verbatim>\<open>get_tiago_hw_arguments\<close>. The base provider \<^verbatim>\<open>get_tiago_base_hw_arguments\<close>
  lives in another package and is a parameter; an exception it raises leaves the function
  at once. A default-override parameter that the caller omits is \<open>None\<close> and stands for
  the default of the signature. Each \<^verbatim>\<open>args.append\<close> is one step of the chain.
\<close>

definition get_tiago_hw_arguments ::
  "bool \<Rightarrow> bool \<Rightarrow> bool \<Rightarrow> bool \<Rightarrow> bool \<Rightarrow>
   string option \<Rightarrow> string option \<Rightarrow> string option \<Rightarrow> string option \<Rightarrow> string option \<Rightarrow>
   (kwargs \<Rightarrow> error + DeclareLaunchArgument list) \<Rightarrow> kwargs \<Rightarrow>
   error + DeclareLaunchArgument list" where
  "get_tiago_hw_arguments arm wrist_model end_effector ft_sensor camera_model
     default_arm default_wrist_model default_end_effector default_ft_sensor
     default_camera_model get_tiago_base_hw_arguments kwargs =
   (case get_tiago_base_hw_arguments kwargs of
      Inl e \<Rightarrow> Inl e
    | Inr args0 \<Rightarrow>
       (let args1 = (if arm then args0 @
                  [\<lparr>name = ''arm'',
                    default_value = (case default_arm of None \<Rightarrow> ''no-arm'' | Some v \<Rightarrow> v),
                    description = ''Which type of arm TIAGo has. '',
                    choices = [''no-arm'', ''left-arm'', ''right-arm'']\<rparr>]
                else args0);
            args2 = (if wrist_model then args1 @
                  [\<lparr>name = ''wrist_model'',
                    default_value =
                      (case default_wrist_model of None \<Rightarrow> ''wrist-2010'' | Some v \<Rightarrow> v),
                    description = ''Wrist model. '',
                    choices = [''wrist-2010'', ''wrist-2017'']\<rparr>]
                else args1);
            args3 = (if end_effector then args2 @
                  [\<lparr>name = ''end_effector'',
                    default_value =
                      (case default_end_effector of None \<Rightarrow> ''no-end-effector'' | Some v \<Rightarrow> v),
                    description = ''End effector model.'',
                    choices = [''pal-gripper'', ''pal-hey5'', ''schunk-wsg'',
                               ''custom'', ''no-end-effector'']\<rparr>]
                else args2);
            args4 = (if ft_sensor then args3 @
                  [\<lparr>name = ''ft_sensor'',
                    default_value =
                      (case default_ft_sensor of None \<Rightarrow> ''schunk-ft'' | Some v \<Rightarrow> v),
                    description = ''FT sensor model. '',
                    choices = [''schunk-ft'', ''no-ft-sensor'']\<rparr>]
                else args3);
            args5 = (if camera_model then args4 @
                  [\<lparr>name = ''camera_model'',
                    default_value =
                      (case default_camera_model of None \<Rightarrow> ''orbbec-astra'' | Some v \<Rightarrow> v),
                    description = ''Head camera model. '',
                    choices = [''no-camera'', ''orbbec-astra'', ''orbbec-astra-pro'',
                               ''asus-xtion'']\<rparr>]
                else args4)
        in Inr args5))"

section \<open>The Suffix Composer\<close>

text \<open>
  \<^verbatim>\<open>get_tiago_hw_suffix\<close>. The list starts with the opening quote, every selected
  dimension appends its launch configuration and an underscore, the slice
  \<^verbatim>\<open>suffix_elements[:-1]\<close> drops the last element, and the closing quote is appended.
  The extra keyword arguments are accepted and never read. The diagnostic
  \<^verbatim>\<open>print(suffix_elements)\<close> has no part in the returned value and is left out.
\<close>

definition get_tiago_hw_suffix ::
  "bool \<Rightarrow> bool \<Rightarrow> bool \<Rightarrow> bool \<Rightarrow> bool \<Rightarrow> kwargs \<Rightarrow> Substitution" where
  "get_tiago_hw_suffix arm wrist_model end_effector ft_sensor camera_model kwargs =
   (let s0 = [TextSubstitution quote];
        s1 = (if arm
              then s0 @ [LaunchConfiguration ''arm''] @ [TextSubstitution ''_'']
              else s0);
        s2 = (if wrist_model
              then s1 @ [LaunchConfiguration ''wrist_model''] @ [TextSubstitution ''_'']
              else s1);
        s3 = (if end_effector
              then s2 @ [LaunchConfiguration ''end_effector''] @ [TextSubstitution ''_'']
              else s2);
        s4 = (if ft_sensor
              then s3 @ [LaunchConfiguration ''ft_sensor''] @ [TextSubstitution ''_'']
              else s3);
        s5 = (if camera_model
              then s4 @ [LaunchConfiguration ''camera_model''] @ [TextSubstitution ''_'']
              else s4);
        s6 = butlast s5;
        s7 = s6 @ [TextSubstitution quote]
    in PythonExpression s7)"

section \<open>The Description Generator\<close>

text \<open>
  Modelled from the spec: \<^verbatim>\<open>read_launch_argument\<close> of the package \<^verbatim>\<open>launch_pal\<close>,
  which is not part of this repository's files. The spec gives the resolution interface
  as a lookup from a name to its resolved string that fails with a lookup error for a
  name that is not declared.
\<close>

definition read_launch_argument :: "string \<Rightarrow> LaunchContext \<Rightarrow> error + string" where
  "read_launch_argument arg_name context =
   (case launch_configurations context arg_name of
      None \<Rightarrow> Inl (LookupFailure arg_name)
    | Some v \<Rightarrow> Inr v)"

text \<open>
  \<^verbatim>\<open>TiagoXacroConfigSubstitution.perform\<close>: five reads in the order of the source, each
  of which may raise, then the concatenation.
\<close>

definition TiagoXacroConfigSubstitution_perform :: "LaunchContext \<Rightarrow> error + string" where
  "TiagoXacroConfigSubstitution_perform context =
   (case read_launch_argument ''laser_model'' context of
      Inl e \<Rightarrow> Inl e
    | Inr laser_model \<Rightarrow>
   (case read_launch_argument ''arm'' context of
      Inl e \<Rightarrow> Inl e
    | Inr arm \<Rightarrow>
   (case read_launch_argument ''end_effector'' context of
      Inl e \<Rightarrow> Inl e
    | Inr end_effector \<Rightarrow>
   (case read_launch_argument ''ft_sensor'' context of
      Inl e \<Rightarrow> Inl e
    | Inr ft_sensor \<Rightarrow>
   (case read_launch_argument ''camera_model'' context of
      Inl e \<Rightarrow> Inl e
    | Inr camera_model \<Rightarrow>
       Inr ('' laser_model:='' @ laser_model @
            '' arm:='' @ arm @
            '' end_effector:='' @ end_effector @
            '' ft_sensor:='' @ ft_sensor @
            '' camera_model:='' @ camera_model))))))"

text \<open>\<^verbatim>\<open>generate_robot_description_action\<close>: the command object, argument by argument.\<close>

definition generate_robot_description_action :: Substitution where
  "generate_robot_description_action =
   Command
     [ExecutableInPackage ''xacro'' ''xacro'',
      TextSubstitution '' '',
      PathJoinSubstitution
        [FindPackageShare ''tiago_description'',
         TextSubstitution ''robots'', TextSubstitution ''tiago.urdf.xacro''],
      TiagoXacroConfigSubstitution]"

section \<open>Evaluation of deferred expressions\<close>

text \<open>
  Modelled from the spec: evaluation by the launch runtime, which is not part of this
  repository's files. A deferred expression is evaluated against a resolution context;
  its fragments are resolved from left to right and joined into one string, and the first
  failure ends the evaluation. A Python expression hands the joined text to the Python
  evaluator, a command hands it to the process runner, and the config substitution runs
  its own \<open>perform\<close>.
\<close>

fun perform :: "LaunchContext \<Rightarrow> Substitution \<Rightarrow> error + string"
  and perform_each :: "LaunchContext \<Rightarrow> Substitution list \<Rightarrow> error + string list" where
  "perform context (TextSubstitution s) = Inr s"
| "perform context (LaunchConfiguration n) = read_launch_argument n context"
| "perform context (PythonExpression subs) =
     (case perform_each context subs of
        Inl e \<Rightarrow> Inl e
      | Inr vs \<Rightarrow> python_eval context (concat vs))"
| "perform context (ExecutableInPackage package executable) =
     executable_in_package context package executable"
| "perform context (FindPackageShare package) = package_share context package"
| "perform context (PathJoinSubstitution subs) =
     (case perform_each context subs of
        Inl e \<Rightarrow> Inl e
      | Inr vs \<Rightarrow> path_join context vs)"
| "perform context TiagoXacroConfigSubstitution =
     TiagoXacroConfigSubstitution_perform context"
| "perform context (Command subs) =
     (case perform_each context subs of
        Inl e \<Rightarrow> Inl e
      | Inr vs \<Rightarrow> run_command context (concat vs))"
| "perform_each context [] = Inr []"
| "perform_each context (s # ss) =
     (case perform context s of
        Inl e \<Rightarrow> Inl e
      | Inr v \<Rightarrow>
         (case perform_each context ss of
            Inl e \<Rightarrow> Inl e
          | Inr vs \<Rightarrow> Inr (v # vs)))"

definition perform_substitutions :: "LaunchContext \<Rightarrow> Substitution list \<Rightarrow> error + string" where
  "perform_substitutions context subs =
   (case perform_each context subs of
      Inl e \<Rightarrow> Inl e
    | Inr vs \<Rightarrow> Inr (concat vs))"

section \<open>The specification's vocabulary\<close>

text \<open>
  The definitions of this section follow the words of the specification, not the code;
  the theorems below compare the code with them.
\<close>

text \<open>The five hardware dimensions in the specification's fixed order.\<close>

definition hw_names :: "string list" where
  "hw_names = [''arm'', ''wrist_model'', ''end_effector'', ''ft_sensor'', ''camera_model'']"

text \<open>The five option names the config substitution resolves, in the specification's order.\<close>

definition xacro_names :: "string list" where
  "xacro_names = [''laser_model'', ''arm'', ''end_effector'', ''ft_sensor'', ''camera_model'']"

text \<open>The entries of a five-element list whose flag is set, in their order.\<close>

definition selected :: "bool \<Rightarrow> bool \<Rightarrow> bool \<Rightarrow> bool \<Rightarrow> bool \<Rightarrow> 'a list \<Rightarrow> 'a list" where
  "selected arm wrist_model end_effector ft_sensor camera_model xs =
   map snd (filter fst (zip [arm, wrist_model, end_effector, ft_sensor, camera_model] xs))"


text \<open>What a Hardware Option carries: its name, its set of allowed values, its default.\<close>

definition hardware_option :: "DeclareLaunchArgument \<Rightarrow> string \<times> string set \<times> string" where
  "hardware_option d = (name d, set (choices d), default_value d)"

text \<open>A string of \<^verbatim>\<open>name:=value\<close> pairs, each preceded by one space.\<close>

definition name_value_block :: "(string \<times> string) list \<Rightarrow> string" where
  "name_value_block pairs = concat (map (\<lambda>(n, v). '' '' @ n @ '':='' @ v) pairs)"

section \<open>Example inputs\<close>

text \<open>
  A resolution context with the given bindings and no external collaborator available:
  whatever reaches the package index, the path joiner, the Python evaluator or the process
  runner fails.
\<close>

definition context_of :: "(string \<times> string) list \<Rightarrow> LaunchContext" where
  "context_of bindings =
   \<lparr>launch_configurations = map_of bindings,
    executable_in_package = (\<lambda>package executable. Inl (ExternalFailure executable)),
    package_share = (\<lambda>package. Inl (ExternalFailure package)),
    path_join = (\<lambda>parts. Inl (ExternalFailure ''join'')),
    python_eval = (\<lambda>text. Inl (ExternalFailure text)),
    run_command = (\<lambda>text. Inl (ExternalFailure text))\<rparr>"

text \<open>A base provider that declares the laser model whatever it is asked.\<close>

definition laser_only :: "kwargs \<Rightarrow> error + DeclareLaunchArgument list" where
  "laser_only kwargs =
   Inr [\<lparr>name = ''laser_model'', default_value = ''sick-571'',
         description = ''Base laser model. '',
         choices = [''sick-551'', ''sick-561'', ''sick-571'', ''hokuyo'']\<rparr>]"



section \<open>Helper facts\<close>

lemma read_launch_argument_declared:
  "launch_configurations context n = Some v \<Longrightarrow> read_launch_argument n context = Inr v"
  by (simp add: read_launch_argument_def)

lemma read_launch_argument_undeclared:
  "launch_configurations context n = None \<Longrightarrow>
   read_launch_argument n context = Inl (LookupFailure n)"
  by (simp add: read_launch_argument_def)

lemma read_launch_argument_cong:
  "launch_configurations c1 n = launch_configurations c2 n \<Longrightarrow>
   read_launch_argument n c1 = read_launch_argument n c2"
  by (simp add: read_launch_argument_def)

text \<open>An exception of the base provider leaves \<open>get_tiago_hw_arguments\<close> unchanged.\<close>

lemma get_tiago_hw_arguments_base_failure:
  "get_base kwargs = Inl e \<Longrightarrow>
   get_tiago_hw_arguments arm wrist_model end_effector ft_sensor camera_model
     default_arm default_wrist_model default_end_effector default_ft_sensor
     default_camera_model get_base kwargs = Inl e"
  by (simp add: get_tiago_hw_arguments_def)

text \<open>
  The command line of the description generator: when the package index finds the
  executable and the share directory, the path joiner builds the template path and the
  five options resolve, the process runner receives the executable, one space, the
  template path and the argument block, concatenated.
\<close>

lemma robot_description_command_line:
  assumes "executable_in_package context ''xacro'' ''xacro'' = Inr exe"
    and "package_share context ''tiago_description'' = Inr share"
    and "path_join context [share, ''robots'', ''tiago.urdf.xacro''] = Inr template"
    and "TiagoXacroConfigSubstitution_perform context = Inr block"
  shows "perform context generate_robot_description_action =
    run_command context (exe @ '' '' @ template @ block)"
  using assms by (simp add: generate_robot_description_action_def)

section \<open>The Argument Declarator: claims\<close>

text \<open>
  Claim C1. Whenever the base provider returns a list, \<open>get_tiago_hw_arguments\<close> returns
  that list followed by as many declarations as there are true flags; among these, each
  true flag has exactly one declaration of its dimension's name, which carries the
  dimension's allowed values and, as default, the override when one is supplied and the
  built-in default otherwise; a false flag has none.
\<close>

theorem get_tiago_hw_arguments_one_per_flag:
  assumes "get_base kwargs = Inr base"
  shows "\<exists>rest.
      get_tiago_hw_arguments arm wrist_model end_effector ft_sensor camera_model
        default_arm default_wrist_model default_end_effector default_ft_sensor
        default_camera_model get_base kwargs = Inr (base @ rest)
    \<and> length rest =
        length (filter id [arm, wrist_model, end_effector, ft_sensor, camera_model])
    \<and> map hardware_option (filter (\<lambda>d. name d = ''arm'') rest) =
        (if arm
         then [(''arm'', {''no-arm'', ''left-arm'', ''right-arm''},
                case default_arm of None \<Rightarrow> ''no-arm'' | Some x \<Rightarrow> x)]
         else [])
    \<and> map hardware_option (filter (\<lambda>d. name d = ''wrist_model'') rest) =
        (if wrist_model
         then [(''wrist_model'', {''wrist-2010'', ''wrist-2017''},
                case default_wrist_model of None \<Rightarrow> ''wrist-2010'' | Some x \<Rightarrow> x)]
         else [])
    \<and> map hardware_option (filter (\<lambda>d. name d = ''end_effector'') rest) =
        (if end_effector
         then [(''end_effector'',
                {''pal-gripper'', ''pal-hey5'', ''schunk-wsg'', ''custom'', ''no-end-effector''},
                case default_end_effector of None \<Rightarrow> ''no-end-effector'' | Some x \<Rightarrow> x)]
         else [])
    \<and> map hardware_option (filter (\<lambda>d. name d = ''ft_sensor'') rest) =
        (if ft_sensor
         then [(''ft_sensor'', {''schunk-ft'', ''no-ft-sensor''},
                case default_ft_sensor of None \<Rightarrow> ''schunk-ft'' | Some x \<Rightarrow> x)]
         else [])
    \<and> map hardware_option (filter (\<lambda>d. name d = ''camera_model'') rest) =
        (if camera_model
         then [(''camera_model'',
                {''no-camera'', ''orbbec-astra'', ''orbbec-astra-pro'', ''asus-xtion''},
                case default_camera_model of None \<Rightarrow> ''orbbec-astra'' | Some x \<Rightarrow> x)]
         else [])"
  using assms
  by (cases arm; cases wrist_model; cases end_effector; cases ft_sensor; cases camera_model;
      simp add: get_tiago_hw_arguments_def hardware_option_def)

text \<open>
  The theorem at the flags arm and camera model, the arm's default overridden by
  \<^verbatim>\<open>right-arm\<close>, over the base provider \<open>laser_only\<close>.
\<close>

theorem get_tiago_hw_arguments_one_per_flag_witness:
  "\<exists>base rest.
      laser_only Map.empty = Inr base
    \<and> get_tiago_hw_arguments True False False False True
        (Some ''right-arm'') None None None None laser_only Map.empty = Inr (base @ rest)
    \<and> length rest = 2
    \<and> map hardware_option (filter (\<lambda>d. name d = ''arm'') rest) =
        [(''arm'', {''no-arm'', ''left-arm'', ''right-arm''}, ''right-arm'')]
    \<and> map hardware_option (filter (\<lambda>d. name d = ''wrist_model'') rest) = []
    \<and> map hardware_option (filter (\<lambda>d. name d = ''camera_model'') rest) =
        [(''camera_model'',
          {''no-camera'', ''orbbec-astra'', ''orbbec-astra-pro'', ''asus-xtion''},
          ''orbbec-astra'')]"
proof -
  obtain base where h: "laser_only Map.empty = Inr base"
    by (simp add: laser_only_def)
  from get_tiago_hw_arguments_one_per_flag [of laser_only Map.empty base
      True False False False True "Some ''right-arm''" None None None None, OF h]
  obtain rest where
    "get_tiago_hw_arguments True False False False True
        (Some ''right-arm'') None None None None laser_only Map.empty = Inr (base @ rest)"
    "length rest = 2"
    "map hardware_option (filter (\<lambda>d. name d = ''arm'') rest) =
        [(''arm'', {''no-arm'', ''left-arm'', ''right-arm''}, ''right-arm'')]"
    "map hardware_option (filter (\<lambda>d. name d = ''wrist_model'') rest) = []"
    "map hardware_option (filter (\<lambda>d. name d = ''camera_model'') rest) =
        [(''camera_model'',
          {''no-camera'', ''orbbec-astra'', ''orbbec-astra-pro'', ''asus-xtion''},
          ''orbbec-astra'')]"
    by auto
  with h show ?thesis
    by - (rule exI [of _ base], rule exI [of _ rest], simp)
qed

text \<open>
  Claim C5. Whenever the base provider returns a list, the returned list is that list
  followed by declarations whose names are those of the selected dimensions in the order
  arm, wrist model, end effector, force-torque sensor, camera model.
\<close>

theorem get_tiago_hw_arguments_order:
  assumes "get_base kwargs = Inr base"
  shows "\<exists>rest.
      get_tiago_hw_arguments arm wrist_model end_effector ft_sensor camera_model
        default_arm default_wrist_model default_end_effector default_ft_sensor
        default_camera_model get_base kwargs = Inr (base @ rest)
    \<and> map name rest = selected arm wrist_model end_effector ft_sensor camera_model hw_names"
  using assms
  by (cases arm; cases wrist_model; cases end_effector; cases ft_sensor; cases camera_model;
      simp add: get_tiago_hw_arguments_def selected_def hw_names_def)

text \<open>The theorem at the flags wrist model, force-torque sensor and camera model.\<close>

theorem get_tiago_hw_arguments_order_witness:
  "\<exists>base rest.
      laser_only Map.empty = Inr base
    \<and> map name base = [''laser_model'']
    \<and> get_tiago_hw_arguments False True False True True
        None None None None None laser_only Map.empty = Inr (base @ rest)
    \<and> map name rest = [''wrist_model'', ''ft_sensor'', ''camera_model'']"
proof -
  obtain base where h: "laser_only Map.empty = Inr base"
    and b: "map name base = [''laser_model'']"
    by (simp add: laser_only_def)
  from get_tiago_hw_arguments_order [of laser_only Map.empty base
      False True False True True None None None None None, OF h]
  obtain rest where
    "get_tiago_hw_arguments False True False True True
        None None None None None laser_only Map.empty = Inr (base @ rest)"
    "map name rest = [''wrist_model'', ''ft_sensor'', ''camera_model'']"
    by (auto simp add: selected_def hw_names_def)
  with h b show ?thesis
    by - (rule exI [of _ base], rule exI [of _ rest], simp)
qed

text \<open>
  Claim C9. The function only appends: whenever the base provider returns a list, that
  list is a prefix of the returned list, element for element, and with all five flags
  false the returned list is the base provider's list.
\<close>

theorem get_tiago_hw_arguments_only_appends:
  assumes "get_base kwargs = Inr base"
  shows "(\<exists>rest.
      get_tiago_hw_arguments arm wrist_model end_effector ft_sensor camera_model
        default_arm default_wrist_model default_end_effector default_ft_sensor
        default_camera_model get_base kwargs = Inr (base @ rest))
    \<and> get_tiago_hw_arguments False False False False False
        default_arm default_wrist_model default_end_effector default_ft_sensor
        default_camera_model get_base kwargs = Inr base"
  using assms
  by (simp add: get_tiago_hw_arguments_def Let_def)

text \<open>The theorem over the base provider \<open>laser_only\<close>, with the end effector selected.\<close>

theorem get_tiago_hw_arguments_only_appends_witness:
  "\<exists>base.
      laser_only Map.empty = Inr base
    \<and> (\<exists>rest. get_tiago_hw_arguments False False True False False
          None None (Some ''pal-hey5'') None None laser_only Map.empty = Inr (base @ rest))
    \<and> get_tiago_hw_arguments False False False False False
          None None (Some ''pal-hey5'') None None laser_only Map.empty = Inr base"
proof -
  obtain base where h: "laser_only Map.empty = Inr base"
    by (simp add: laser_only_def)
  from get_tiago_hw_arguments_only_appends [of laser_only Map.empty base
      False False True False False None None "Some ''pal-hey5''" None None, OF h]
  show ?thesis using h by blast
qed

section \<open>The Suffix Composer: claims\<close>




text \<open>
  Claim C3. With all five flags false the list holds only the opening quote when the
  slice drops its last element, so the expression is the closing quote alone: its text is
  one quote character, not two.
\<close>

theorem get_tiago_hw_suffix_no_flags:
  "get_tiago_hw_suffix False False False False False kwargs
     = PythonExpression [TextSubstitution quote]
   \<and> perform_substitutions context [TextSubstitution quote] = Inr quote
   \<and> quote \<noteq> quote @ quote"
  by (simp add: get_tiago_hw_suffix_def perform_substitutions_def)

text \<open>
  Claim C10. The suffix expression does not depend on the extra keyword arguments: two
  calls with the same five flags return the same expression whatever keyword arguments
  they carry. The argument declarator hands its keyword arguments to the base provider:
  with no flag set it returns what the provider returns for them.
\<close>

theorem get_tiago_hw_suffix_ignores_kwargs:
  "get_tiago_hw_suffix arm wrist_model end_effector ft_sensor camera_model kwargs1 =
   get_tiago_hw_suffix arm wrist_model end_effector ft_sensor camera_model kwargs2
   \<and> get_tiago_hw_arguments False False False False False
        default_arm default_wrist_model default_end_effector default_ft_sensor
        default_camera_model get_base kwargs1 = get_base kwargs1"
  by (simp add: get_tiago_hw_suffix_def get_tiago_hw_arguments_def split: sum.splits)

section \<open>The Description Generator: claims\<close>

text \<open>
  Claim C4. When the five option names laser model, arm, end effector, force-torque
  sensor and camera model are bound, \<open>perform\<close> of the config substitution returns the
  \<^verbatim>\<open>name:=value\<close> pairs in that order, each preceded by one space.
\<close>

theorem TiagoXacroConfigSubstitution_perform_block:
  assumes "launch_configurations context ''laser_model'' = Some laser_model"
    and "launch_configurations context ''arm'' = Some arm"
    and "launch_configurations context ''end_effector'' = Some end_effector"
    and "launch_configurations context ''ft_sensor'' = Some ft_sensor"
    and "launch_configurations context ''camera_model'' = Some camera_model"
  shows "TiagoXacroConfigSubstitution_perform context =
      Inr (name_value_block
        [(''laser_model'', laser_model), (''arm'', arm), (''end_effector'', end_effector),
         (''ft_sensor'', ft_sensor), (''camera_model'', camera_model)])"
  using assms
  by (simp add: TiagoXacroConfigSubstitution_perform_def read_launch_argument_def
      name_value_block_def)

text \<open>The theorem at the bindings of the specification's example.\<close>

theorem TiagoXacroConfigSubstitution_perform_block_witness:
  "TiagoXacroConfigSubstitution_perform
     (context_of [(''laser_model'', ''sick-571''), (''arm'', ''no-arm''),
        (''end_effector'', ''pal-gripper''), (''ft_sensor'', ''no-ft-sensor''),
        (''camera_model'', ''asus-xtion'')])
   = Inr '' laser_model:=sick-571 arm:=no-arm end_effector:=pal-gripper ft_sensor:=no-ft-sensor camera_model:=asus-xtion''"
  using TiagoXacroConfigSubstitution_perform_block
    [of "context_of [(''laser_model'', ''sick-571''), (''arm'', ''no-arm''),
        (''end_effector'', ''pal-gripper''), (''ft_sensor'', ''no-ft-sensor''),
        (''camera_model'', ''asus-xtion'')]"
      "''sick-571''" "''no-arm''" "''pal-gripper''" "''no-ft-sensor''" "''asus-xtion''"]
  by (simp add: context_of_def name_value_block_def)

text \<open>
  Claim C6. The description action is a command of exactly four arguments, in this
  order: the executable \<^verbatim>\<open>xacro\<close> of the package \<^verbatim>\<open>xacro\<close>, a text of one space, the
  path joining the share directory of \<^verbatim>\<open>tiago_description\<close> with \<^verbatim>\<open>robots\<close> and
  \<^verbatim>\<open>tiago.urdf.xacro\<close>, and the config substitution.
\<close>

theorem generate_robot_description_action_arguments:
  "\<exists>executable space path config.
     generate_robot_description_action = Command [executable, space, path, config]
   \<and> executable = ExecutableInPackage ''xacro'' ''xacro''
   \<and> space = TextSubstitution '' ''
   \<and> path = PathJoinSubstitution [FindPackageShare ''tiago_description'',
        TextSubstitution ''robots'', TextSubstitution ''tiago.urdf.xacro'']
   \<and> config = TiagoXacroConfigSubstitution"
  by (simp add: generate_robot_description_action_def)

text \<open>
  Claim C7. When one of the five option names is not declared, \<open>perform\<close> of the config
  substitution returns no string: its result is the lookup error of an undeclared name
  among the five, as the read of that name gives it; when the laser model is the
  undeclared one, the error names the laser model.
\<close>

theorem TiagoXacroConfigSubstitution_perform_undeclared:
  assumes "\<exists>n \<in> set xacro_names. launch_configurations context n = None"
  shows "(\<exists>n \<in> set xacro_names. launch_configurations context n = None
            \<and> read_launch_argument n context = Inl (LookupFailure n)
            \<and> TiagoXacroConfigSubstitution_perform context = read_launch_argument n context)
       \<and> (\<forall>s. TiagoXacroConfigSubstitution_perform context \<noteq> Inr s)
       \<and> (launch_configurations context ''laser_model'' = None \<longrightarrow>
            TiagoXacroConfigSubstitution_perform context = Inl (LookupFailure ''laser_model''))"
  using assms
  by (auto simp add: TiagoXacroConfigSubstitution_perform_def read_launch_argument_def
      xacro_names_def split: option.splits)

text \<open>The theorem at a context that binds every option but the laser model.\<close>

theorem TiagoXacroConfigSubstitution_perform_undeclared_witness:
  "launch_configurations
     (context_of [(''arm'', ''no-arm''), (''end_effector'', ''pal-gripper''),
        (''ft_sensor'', ''no-ft-sensor''), (''camera_model'', ''asus-xtion'')])
     ''laser_model'' = None
   \<and> TiagoXacroConfigSubstitution_perform
     (context_of [(''arm'', ''no-arm''), (''end_effector'', ''pal-gripper''),
        (''ft_sensor'', ''no-ft-sensor''), (''camera_model'', ''asus-xtion'')])
     = Inl (LookupFailure ''laser_model'')"
proof -
  let ?c = "context_of [(''arm'', ''no-arm''), (''end_effector'', ''pal-gripper''),
        (''ft_sensor'', ''no-ft-sensor''), (''camera_model'', ''asus-xtion'')]"
  have none: "launch_configurations ?c ''laser_model'' = None"
    by (simp add: context_of_def)
  then have "\<exists>n \<in> set xacro_names. launch_configurations ?c n = None"
    by (simp add: xacro_names_def)
  from TiagoXacroConfigSubstitution_perform_undeclared [OF this] none
  show ?thesis by blast
qed

end
